theory Spec2Isabelle
  imports Complex_Main "HOL-Library.Sublist"
begin

section \<open>Garmin Connect MCP server: session bootstrap and activity listing\<close>

text \<open>
  A shallow embedding of \<^verbatim>\<open>garmin_mcp_server.py\<close>. The program is glue around
  library calls, so the embedding makes every call an event of a trace and takes the
  answer of every call the source guards with a handler from a \<open>world\<close> record.
  Directory creation, the dump of the session and the write of the portable token have
  no handler anywhere in the source; they are modelled as updates of the file system
  that succeed. The library's login is modelled as \<open>garminconnect\<close> has it: with
  no argument it takes the token store from \<open>GARMINTOKENS\<close> when that is set, and a
  restore answers by the store and the number of restores before it. Exceptions are the instances of Python's \<open>Exception\<close>; interpreter
  signals such as \<open>KeyboardInterrupt\<close> are outside the model.
\<close>

subsection \<open>Python values and exceptions\<close>

datatype exn_class =
    FileNotFoundError
  | GarthHTTPError
  | GarminConnectAuthenticationError
  | HTTPError
  | PermissionError
  | JSONDecodeError
  | AttributeError
  | TypeError
  | OtherException string

text \<open>An exception is its class and the text that \<open>str(err)\<close> gives.\<close>

datatype exn = Exn (cls: exn_class) (message: string)

text \<open>The values a decoded JSON document is made of, which are also what
  \<open>json.dumps\<close> takes. A dict is the list of its items, in order, with distinct
  keys.\<close>

datatype pyval =
    PNone
  | PBool bool
  | PInt int
  | PFloat real
  | PStr string
  | PList "pyval list"
  | PDict "(string \<times> pyval) list"

text \<open>Python's truth value of an object (\<open>not x\<close>, \<open>bool(x)\<close>).\<close>

fun truthy :: "pyval \<Rightarrow> bool" where
  "truthy PNone = False"
| "truthy (PBool b) = b"
| "truthy (PInt i) = (i \<noteq> 0)"
| "truthy (PFloat r) = (r \<noteq> 0)"
| "truthy (PStr s) = (s \<noteq> [])"
| "truthy (PList xs) = (xs \<noteq> [])"
| "truthy (PDict kvs) = (kvs \<noteq> [])"

text \<open>The truth value of what \<open>os.environ.get\<close> returns: \<open>None\<close> or a string.\<close>

fun truthy_str :: "string option \<Rightarrow> bool" where
  "truthy_str None = False"
| "truthy_str (Some s) = (s \<noteq> [])"

subsection \<open>Configuration read from the environment (lines 36 to 41)\<close>

type_synonym environ = "string \<rightharpoonup> string"

text \<open>\<open>os.getenv(name) or default\<close>.\<close>

definition getenv_or :: "environ \<Rightarrow> string \<Rightarrow> string \<Rightarrow> string" where
  "getenv_or env name dflt =
     (case env name of None \<Rightarrow> dflt | Some v \<Rightarrow> if v = [] then dflt else v)"

text \<open>The five globals of the module, and with them the value of \<open>GARMINTOKENS\<close>
  itself, which the library reads again when it logs in.\<close>

record config =
  email :: "string option"
  password :: "string option"
  tokenstore :: string
  tokenstore_base64 :: string
  mcp_mode :: bool
  garmintokens :: "string option"

definition load_config :: "environ \<Rightarrow> config" where
  "load_config env =
     \<lparr> email = env ''GARMIN_EMAIL'',
       password = env ''GARMIN_PASSWORD'',
       tokenstore = getenv_or env ''GARMINTOKENS'' ''~/.garminconnect'',
       tokenstore_base64 = getenv_or env ''GARMINTOKENS_BASE64'' ''~/.garminconnect_base64'',
       mcp_mode = truthy_str (env ''MCP_MODE''),
       garmintokens = env ''GARMINTOKENS'' \<rparr>"

subsection \<open>Events, the world and the file system\<close>

text \<open>The client handle: restored from a token store, or logged in with a password.\<close>

datatype garmin = Restored string | LoggedIn string string

datatype module =
    activity_management | health_wellness | user_profile | devices | gear_management
  | weight_management | challenges | training | workouts | data_management | womens_health

text \<open>
  One event for each call that leaves the process. A login carries its outcome
  (\<open>None\<close>: it returned; \<open>Some err\<close>: it raised \<open>err\<close>). \<open>StdoutJson v\<close> is
  \<open>sys.stdout.write(json.dumps(v) + "\n")\<close> with its flush; \<open>Print s\<close> is \<open>print(s)\<close>.
\<close>

datatype event =
    TokenLogin string "exn option"
  | PasswordLogin string string "exn option"
  | Makedirs string
  | GarthDump string
  | GarthDumps
  | OpenWrite string string
  | StdoutJson pyval
  | Print string
  | Configure module "exn option"
  | RegisterTools module "exn option"
  | GetActivities int int
  | AppRun

record world =
  login_tokens :: "string \<Rightarrow> nat \<Rightarrow> exn option"
  login_password :: "string \<Rightarrow> string \<Rightarrow> exn option"
  garth_dumps :: "garmin \<Rightarrow> string"
  expanduser :: "string \<Rightarrow> string"
  configure :: "module \<Rightarrow> exn option"
  register_tools :: "module \<Rightarrow> exn option"
  get_activities :: "int \<Rightarrow> int \<Rightarrow> exn + pyval"
  repr :: "pyval \<Rightarrow> string"

record fs =
  dirs :: "string set"
  stores :: "string \<rightharpoonup> garmin"
  files :: "string \<rightharpoonup> string"

subsection \<open>\<open>send_mcp_error\<close> (lines 43 to 55)\<close>

definition mcp_error_response :: "string \<Rightarrow> pyval" where
  "mcp_error_response error_msg =
     PDict [(''jsonrpc'', PStr ''2.0''),
            (''error'', PDict [(''code'', PInt (- 32000)), (''message'', PStr error_msg)]),
            (''id'', PNone)]"

definition send_mcp_error :: "config \<Rightarrow> string \<Rightarrow> event list" where
  "send_mcp_error c error_msg =
     (if mcp_mode c then [StdoutJson (mcp_error_response error_msg)] else [])"

subsection \<open>\<open>init_api\<close> (lines 57 to 103)\<close>

text \<open>The branch both error paths of \<open>init_api\<close> share: the structured
  notification in MCP mode, \<open>print\<close> otherwise.\<close>

definition report :: "config \<Rightarrow> string \<Rightarrow> event list" where
  "report c error_msg = (if mcp_mode c then send_mcp_error c error_msg else [Print error_msg])"

definition missing_credentials_msg :: string where
  "missing_credentials_msg =
     ''GARMIN_EMAIL and GARMIN_PASSWORD environment variables must be set''"

text \<open>\<open>except (A, B, ...)\<close>: does the handler take this exception?\<close>

definition catches :: "exn_class list \<Rightarrow> exn \<Rightarrow> bool" where
  "catches classes err = (cls err \<in> set classes)"

type_synonym 'a run = "(exn + 'a) \<times> event list \<times> fs"

text \<open>The outer handler (lines 97 to 103), reached with the events so far; an
  exception of another class leaves \<open>init_api\<close>.\<close>

definition outer_except :: "config \<Rightarrow> event list \<Rightarrow> exn \<Rightarrow> fs \<Rightarrow> garmin option run" where
  "outer_except c evs err s =
     (if catches [GarthHTTPError, GarminConnectAuthenticationError, HTTPError] err
      then (Inr None, evs @ report c (''Authentication error: '' @ message err), s)
      else (Inl err, evs, s))"

text \<open>Lines 73 to 75 and 87 to 89: create the directory, dump the session.\<close>

definition dump_tokenstore :: "world \<Rightarrow> config \<Rightarrow> garmin \<Rightarrow> fs \<Rightarrow> event list \<times> fs" where
  "dump_tokenstore w c g s =
     (let token_dir = expanduser w (tokenstore c) in
      ([Makedirs token_dir, GarthDump (tokenstore c)],
       s\<lparr>dirs := insert token_dir (dirs s), stores := (stores s)(tokenstore c \<mapsto> g)\<rparr>))"

text \<open>Lines 91 to 95: the portable token, opened with mode \<open>"w"\<close>, and the notice.\<close>

definition dump_base64 :: "world \<Rightarrow> config \<Rightarrow> garmin \<Rightarrow> fs \<Rightarrow> event list \<times> fs" where
  "dump_base64 w c g s =
     (let token_base64 = garth_dumps w g;
          dir_path = expanduser w (tokenstore_base64 c) in
      ([GarthDumps, OpenWrite dir_path token_base64,
        Print (''Oauth tokens stored for future use.'' @ [CHR 0x0A])],
       s\<lparr>files := (files s)(dir_path \<mapsto> token_base64)\<rparr>))"

text \<open>
  The library's \<open>login\<close>, called with credentials and no argument (lines 71 and 86).
  \<open>garminconnect\<close> begins it with \<open>tokenstore = tokenstore or os.getenv("GARMINTOKENS")\<close>:
  when that variable is set and not empty it restores the session from the store the
  variable names, and only otherwise exchanges the password (a value of more than 512
  characters is read as the encoded tokens themselves; the answer is the world's for
  that value either way). \<open>n\<close> counts the restores of the run that came before,
  since the source may try the same store twice. The call of line 81 passes the global
  \<open>tokenstore\<close>, which line 39 never leaves empty, so it restores from that store.
\<close>

definition env_store :: "config \<Rightarrow> string option" where
  "env_store c =
     (case garmintokens c of None \<Rightarrow> None | Some ts \<Rightarrow> if ts = [] then None else Some ts)"

definition login_outcome :: "world \<Rightarrow> config \<Rightarrow> string \<Rightarrow> string \<Rightarrow> nat \<Rightarrow> exn option" where
  "login_outcome w c e p n =
     (case env_store c of
        Some ts \<Rightarrow> login_tokens w ts n
      | None \<Rightarrow> login_password w e p)"

definition login_event :: "world \<Rightarrow> config \<Rightarrow> string \<Rightarrow> string \<Rightarrow> nat \<Rightarrow> event" where
  "login_event w c e p n =
     (case env_store c of
        Some ts \<Rightarrow> TokenLogin ts (login_tokens w ts n)
      | None \<Rightarrow> PasswordLogin e p (login_password w e p))"

definition login_client :: "config \<Rightarrow> string \<Rightarrow> string \<Rightarrow> garmin" where
  "login_client c e p =
     (case env_store c of Some ts \<Rightarrow> Restored ts | None \<Rightarrow> LoggedIn e p)"

definition init_api :: "world \<Rightarrow> config \<Rightarrow> string option \<Rightarrow> string option \<Rightarrow> fs \<Rightarrow> garmin option run" where
  "init_api w c em pw s =
     (case (em, pw) of
        (Some e, Some p) \<Rightarrow>
          if e = [] \<or> p = [] then (Inr None, report c missing_credentials_msg, s)
          else if mcp_mode c then
            (case login_outcome w c e p 0 of
               Some err \<Rightarrow> outer_except c [login_event w c e p 0] err s
             | None \<Rightarrow>
                 (let g = login_client c e p; (evs, s') = dump_tokenstore w c g s
                  in (Inr (Some g), login_event w c e p 0 # evs, s')))
          else
            (case login_tokens w (tokenstore c) 0 of
               None \<Rightarrow> (Inr (Some (Restored (tokenstore c))), [TokenLogin (tokenstore c) None], s)
             | Some err \<Rightarrow>
                 if catches [FileNotFoundError, GarthHTTPError] err then
                   (case login_outcome w c e p 1 of
                      Some err' \<Rightarrow>
                        outer_except c
                          [TokenLogin (tokenstore c) (Some err), login_event w c e p 1] err' s
                    | None \<Rightarrow>
                        (let g = login_client c e p;
                             (evs, s') = dump_tokenstore w c g s;
                             (evs', s'') = dump_base64 w c g s'
                         in (Inr (Some g),
                             [TokenLogin (tokenstore c) (Some err), login_event w c e p 1]
                               @ evs @ evs', s'')))
                 else outer_except c [TokenLogin (tokenstore c) (Some err)] err s)
      | _ \<Rightarrow> (Inr None, report c missing_credentials_msg, s))"

definition result_of :: "'a run \<Rightarrow> exn + 'a" where
  "result_of r = fst r"

definition trace_of :: "'a run \<Rightarrow> event list" where
  "trace_of r = fst (snd r)"

definition fs_of :: "'a run \<Rightarrow> fs" where
  "fs_of r = snd (snd r)"

text \<open>The events that reach the network or the file system: everything but output
  on standard output.\<close>

fun is_io :: "event \<Rightarrow> bool" where
  "is_io (StdoutJson v) = False"
| "is_io (Print s) = False"
| "is_io ev = True"

subsection \<open>\<open>main\<close> (lines 106 to 163 and 192 to 193)\<close>

datatype outcome = Returned | Exited int | Raised exn

text \<open>What the operating system sees: \<open>sys.exit(n)\<close> gives \<open>n\<close>, an exception that
  nothing catches ends the interpreter with status 1.\<close>

fun exit_status :: "outcome \<Rightarrow> int" where
  "exit_status Returned = 0"
| "exit_status (Exited n) = n"
| "exit_status (Raised err) = 1"

definition modules :: "module list" where
  "modules = [activity_management, health_wellness, user_profile, devices, gear_management,
              weight_management, challenges, training, workouts, data_management,
              womens_health]"

text \<open>The calls of one \<open>try\<close> block, in order, up to the first that raises.\<close>

fun run_modules ::
  "(module \<Rightarrow> exn option) \<Rightarrow> (module \<Rightarrow> exn option \<Rightarrow> event) \<Rightarrow> module list
     \<Rightarrow> event list \<times> exn option" where
  "run_modules call mk [] = ([], None)"
| "run_modules call mk (m # ms) =
     (case call m of
        Some err \<Rightarrow> ([mk m (Some err)], Some err)
      | None \<Rightarrow> (let (evs, r) = run_modules call mk ms in (mk m None # evs, r)))"

text \<open>The body of both \<open>except Exception\<close> handlers of \<open>main\<close>.\<close>

definition fatal :: "config \<Rightarrow> string \<Rightarrow> outcome \<times> event list" where
  "fatal c error_msg =
     (if mcp_mode c then (Exited 1, send_mcp_error c error_msg)
      else (Returned, [Print error_msg]))"

definition main :: "world \<Rightarrow> config \<Rightarrow> fs \<Rightarrow> outcome \<times> event list \<times> fs" where
  "main w c s =
     (case init_api w c (email c) (password c) s of
        (Inl err, evs, s') \<Rightarrow> (Raised err, evs, s')
      | (Inr None, evs, s') \<Rightarrow>
          if mcp_mode c
          then (Exited 1,
                evs @ send_mcp_error c ''Failed to initialize Garmin Connect client'', s')
          else (Returned, evs, s')
      | (Inr (Some garmin_client), evs, s') \<Rightarrow>
          (let evs1 = evs @ (if \<not> mcp_mode c
                             then [Print ''Garmin Connect client initialized successfully.'']
                             else [])
           in case run_modules (configure w) Configure modules of
                (cevs, Some err) \<Rightarrow>
                  (let (r, fevs) = fatal c (''Failed to configure modules: '' @ message err)
                   in (r, evs1 @ cevs @ fevs, s'))
              | (cevs, None) \<Rightarrow>
                  (case run_modules (register_tools w) RegisterTools modules of
                     (revs, Some err) \<Rightarrow>
                       (let (r, fevs) = fatal c (''Failed to register tools: '' @ message err)
                        in (r, evs1 @ cevs @ revs @ fevs, s'))
                   | (revs, None) \<Rightarrow> (Returned, evs1 @ cevs @ revs @ [AppRun], s'))))"

definition outcome_of :: "outcome \<times> event list \<times> fs \<Rightarrow> outcome" where
  "outcome_of r = fst r"

definition events_of :: "outcome \<times> event list \<times> fs \<Rightarrow> event list" where
  "events_of r = fst (snd r)"

fun is_structured :: "event \<Rightarrow> bool" where
  "is_structured (StdoutJson v) = True"
| "is_structured ev = False"

fun is_free_text :: "event \<Rightarrow> bool" where
  "is_free_text (Print s) = True"
| "is_free_text ev = False"

subsection \<open>\<open>list_activities\<close> (lines 166 to 190)\<close>

definition nl :: string where
  "nl = [CHR 0x0A]"

definition digit_char :: "nat \<Rightarrow> char" where
  "digit_char d = ''0123456789'' ! d"

text \<open>\<open>str\<close> of a non-negative integer: its decimal digits.\<close>

fun str_nat :: "nat \<Rightarrow> string" where
  "str_nat n = (if n < 10 then [digit_char n] else str_nat (n div 10) @ [digit_char (n mod 10)])"

declare str_nat.simps [simp del]

definition str_int :: "int \<Rightarrow> string" where
  "str_int i = (if i < 0 then ''-'' @ str_nat (nat (- i)) else str_nat (nat i))"

text \<open>What an f-string puts for a value; the text of a float, a list or a dict is
  the interpreter's \<open>repr\<close>, taken from the world.\<close>

definition py_str :: "world \<Rightarrow> pyval \<Rightarrow> string" where
  "py_str w v =
     (case v of
        PStr s \<Rightarrow> s
      | PNone \<Rightarrow> ''None''
      | PBool b \<Rightarrow> (if b then ''True'' else ''False'')
      | PInt i \<Rightarrow> str_int i
      | _ \<Rightarrow> repr w v)"

fun type_name :: "pyval \<Rightarrow> string" where
  "type_name PNone = ''NoneType''"
| "type_name (PBool b) = ''bool''"
| "type_name (PInt i) = ''int''"
| "type_name (PFloat r) = ''float''"
| "type_name (PStr s) = ''str''"
| "type_name (PList xs) = ''list''"
| "type_name (PDict kvs) = ''dict''"

definition quote :: string where
  "quote = [CHR 0x27]"

text \<open>\<open>v.get(key, dflt)\<close>: only a dict has the method.\<close>

fun py_get :: "pyval \<Rightarrow> string \<Rightarrow> pyval \<Rightarrow> exn + pyval" where
  "py_get (PDict kvs) key dflt = Inr (case map_of kvs key of None \<Rightarrow> dflt | Some v \<Rightarrow> v)"
| "py_get v key dflt =
     Inl (Exn AttributeError
            (quote @ type_name v @ quote @ '' object has no attribute '' @ quote @ ''get'' @ quote))"

text \<open>\<open>len(v)\<close>.\<close>

fun py_len :: "pyval \<Rightarrow> exn + nat" where
  "py_len (PStr s) = Inr (length s)"
| "py_len (PList xs) = Inr (length xs)"
| "py_len (PDict kvs) = Inr (length kvs)"
| "py_len v =
     Inl (Exn TypeError (''object of type '' @ quote @ type_name v @ quote @ '' has no len()''))"

text \<open>What a \<open>for\<close> loop sees: the items of a list, the characters of a string, the
  keys of a dict. It is reached only after \<open>len\<close> has returned.\<close>

fun py_iter :: "pyval \<Rightarrow> pyval list" where
  "py_iter (PList xs) = xs"
| "py_iter (PStr s) = map (\<lambda>ch. PStr [ch]) s"
| "py_iter (PDict kvs) = map (\<lambda>kv. PStr (fst kv)) kvs"
| "py_iter v = []"

text \<open>Lines 177 to 183, for one activity.\<close>

definition format_activity :: "world \<Rightarrow> nat \<Rightarrow> pyval \<Rightarrow> exn + string" where
  "format_activity w idx activity =
     (case py_get activity ''activityName'' (PStr ''Unknown'') of
        Inl err \<Rightarrow> Inl err
      | Inr name \<Rightarrow>
     (case py_get activity ''activityType'' (PDict []) of
        Inl err \<Rightarrow> Inl err
      | Inr ty \<Rightarrow>
     (case py_get ty ''typeKey'' (PStr ''Unknown'') of
        Inl err \<Rightarrow> Inl err
      | Inr key \<Rightarrow>
     (case py_get activity ''startTimeLocal'' (PStr ''Unknown'') of
        Inl err \<Rightarrow> Inl err
      | Inr date \<Rightarrow>
     (case py_get activity ''activityId'' (PStr ''Unknown'') of
        Inl err \<Rightarrow> Inl err
      | Inr ident \<Rightarrow>
          Inr (''--- Activity '' @ str_nat idx @ '' ---'' @ nl
               @ ''Activity: '' @ py_str w name @ nl
               @ ''Type: '' @ py_str w key @ nl
               @ ''Date: '' @ py_str w date @ nl
               @ ''ID: '' @ py_str w ident @ nl @ nl))))))"

text \<open>The loop of line 176: \<open>result\<close> grows by one block for each activity.\<close>

fun format_activities :: "world \<Rightarrow> nat \<Rightarrow> string \<Rightarrow> pyval list \<Rightarrow> exn + string" where
  "format_activities w idx result [] = Inr result"
| "format_activities w idx result (activity # rest) =
     (case format_activity w idx activity of
        Inl err \<Rightarrow> Inl err
      | Inr block \<Rightarrow> format_activities w (Suc idx) (result @ block) rest)"

text \<open>The body of the \<open>try\<close> (lines 170 to 185).\<close>

definition list_activities_body :: "world \<Rightarrow> int \<Rightarrow> exn + string" where
  "list_activities_body w limit =
     (case get_activities w 0 limit of
        Inl err \<Rightarrow> Inl err
      | Inr activities \<Rightarrow>
          if \<not> truthy activities then Inr ''No activities found.''
          else (case py_len activities of
                  Inl err \<Rightarrow> Inl err
                | Inr n \<Rightarrow>
                    format_activities w 1 (''Last '' @ str_nat n @ '' activities:'' @ nl @ nl)
                      (py_iter activities)))"

definition list_activities :: "world \<Rightarrow> config \<Rightarrow> int \<Rightarrow> string \<times> event list" where
  "list_activities w c limit =
     (case list_activities_body w limit of
        Inr result \<Rightarrow> (result, [GetActivities 0 limit])
      | Inl err \<Rightarrow>
          (let error_msg = ''Error retrieving activities: '' @ message err
           in (error_msg,
               GetActivities 0 limit # (if mcp_mode c then send_mcp_error c error_msg else []))))"

subsection \<open>Classes of events\<close>

fun is_token_login :: "event \<Rightarrow> bool" where
  "is_token_login (TokenLogin path r) = True"
| "is_token_login ev = False"

text \<open>A write to the token-store path: the directory, then the dump.\<close>

fun is_store_write :: "event \<Rightarrow> bool" where
  "is_store_write (Makedirs path) = True"
| "is_store_write (GarthDump path) = True"
| "is_store_write ev = False"

text \<open>The portable token: its encoding and the write of the file.\<close>

fun is_portable_write :: "event \<Rightarrow> bool" where
  "is_portable_write GarthDumps = True"
| "is_portable_write (OpenWrite path text) = True"
| "is_portable_write ev = False"

fun is_password_login :: "event \<Rightarrow> bool" where
  "is_password_login (PasswordLogin e p r) = True"
| "is_password_login ev = False"

text \<open>A login that returned, of either kind.\<close>

fun login_returned :: "event \<Rightarrow> bool" where
  "login_returned (PasswordLogin e p None) = True"
| "login_returned (TokenLogin path None) = True"
| "login_returned ev = False"

text \<open>Every store write of the trace comes after a login that returned; \<open>ok\<close> says
  that one has been seen already.\<close>

fun guarded :: "bool \<Rightarrow> event list \<Rightarrow> bool" where
  "guarded ok [] = True"
| "guarded ok (ev # evs) =
     ((ok \<or> \<not> is_store_write ev) \<and> guarded (ok \<or> login_returned ev) evs)"

text \<open>
  The states a token store on disk can be in, and the class of the exception with
  which the library's \<open>load\<close> answers each: it opens the token files of the directory
  and decodes them, so a missing directory and a directory without its token file both
  give \<open>FileNotFoundError\<close>.
\<close>

datatype store_state = Absent | Incomplete | Unreadable | Malformed | Loadable

fun load_raises :: "store_state \<Rightarrow> exn_class option" where
  "load_raises Absent = Some FileNotFoundError"
| "load_raises Incomplete = Some FileNotFoundError"
| "load_raises Unreadable = Some PermissionError"
| "load_raises Malformed = Some JSONDecodeError"
| "load_raises Loadable = None"

text \<open>Present on disk, and of no use to a restore.\<close>

fun present_unusable :: "store_state \<Rightarrow> bool" where
  "present_unusable Incomplete = True"
| "present_unusable Unreadable = True"
| "present_unusable Malformed = True"
| "present_unusable st = False"

text \<open>The events \<open>main\<close> adds once \<open>init_api\<close> has returned.\<close>

fun is_startup :: "event \<Rightarrow> bool" where
  "is_startup (StdoutJson v) = True"
| "is_startup (Print s) = True"
| "is_startup (Configure m r) = True"
| "is_startup (RegisterTools m r) = True"
| "is_startup AppRun = True"
| "is_startup ev = False"

definition fs_after :: "outcome \<times> event list \<times> fs \<Rightarrow> fs" where
  "fs_after r = snd (snd r)"

definition initialize_failed_msg :: string where
  "initialize_failed_msg = ''Failed to initialize Garmin Connect client''"

text \<open>An activity the loop can format: a dict whose \<open>activityType\<close>, when present,
  is a dict.\<close>

fun well_formed_activity :: "pyval \<Rightarrow> bool" where
  "well_formed_activity (PDict kvs) =
     (case map_of kvs ''activityType'' of
        None \<Rightarrow> True
      | Some (PDict ty) \<Rightarrow> True
      | Some v \<Rightarrow> False)"
| "well_formed_activity v = False"

text \<open>The first line of the listing of \<open>n\<close> activities (line 175).\<close>

definition header :: "nat \<Rightarrow> string" where
  "header n = ''Last '' @ str_nat n @ '' activities:'' @ nl @ nl"

subsection \<open>Concrete scenarios\<close>

definition home_expanduser :: "string \<Rightarrow> string" where
  "home_expanduser path =
     (if take 1 path = ''~'' then ''/home/user'' @ drop 1 path else path)"

text \<open>No token store on disk, and the provider accepts the password.\<close>

definition fresh_world :: world where
  "fresh_world =
     \<lparr> login_tokens = (\<lambda>path n. Some (Exn FileNotFoundError ''No such file or directory'')),
       login_password = (\<lambda>e p. None),
       garth_dumps = (\<lambda>g. ''dG9rZW4=''),
       expanduser = home_expanduser,
       configure = (\<lambda>m. None),
       register_tools = (\<lambda>m. None),
       get_activities = (\<lambda>start limit. Inr (PList [])),
       repr = (\<lambda>v. ''?'') \<rparr>"

text \<open>A token store that restores.\<close>

definition restorable_world :: world where
  "restorable_world = fresh_world\<lparr>login_tokens := (\<lambda>path n. None)\<rparr>"

text \<open>A token store that is there and cannot be read.\<close>

definition unreadable_world :: world where
  "unreadable_world =
     fresh_world\<lparr>login_tokens := (\<lambda>path n. Some (Exn PermissionError ''Permission denied''))\<rparr>"

definition configure_fails_world :: world where
  "configure_fails_world =
     fresh_world\<lparr>configure :=
       (\<lambda>m. if m = devices then Some (Exn (OtherException ''RuntimeError'') ''boom'') else None)\<rparr>"

definition register_fails_world :: world where
  "register_fails_world =
     fresh_world\<lparr>register_tools :=
       (\<lambda>m. if m = training then Some (Exn (OtherException ''ValueError'') ''duplicate tool'')
            else None)\<rparr>"

definition interactive_config :: config where
  "interactive_config =
     load_config [''GARMIN_EMAIL'' \<mapsto> ''me@example.org'', ''GARMIN_PASSWORD'' \<mapsto> ''secret'']"

definition automated_config :: config where
  "automated_config =
     load_config [''GARMIN_EMAIL'' \<mapsto> ''me@example.org'', ''GARMIN_PASSWORD'' \<mapsto> ''secret'',
                  ''MCP_MODE'' \<mapsto> ''1'']"

definition automated_no_email :: config where
  "automated_no_email =
     load_config [''GARMIN_EMAIL'' \<mapsto> [], ''GARMIN_PASSWORD'' \<mapsto> ''x'',
                  ''MCP_MODE'' \<mapsto> ''1'']"

text \<open>The e-mail and password are rejected.\<close>

definition rejecting_world :: world where
  "rejecting_world =
     fresh_world\<lparr>login_password :=
       (\<lambda>e p. Some (Exn GarminConnectAuthenticationError ''Invalid credentials''))\<rparr>"

text \<open>The directory of the token store is there, its token file is not.\<close>

definition incomplete_world :: world where
  "incomplete_world =
     fresh_world\<lparr>login_tokens :=
       (\<lambda>path n. Some (Exn FileNotFoundError ''No such file: oauth1_token.json''))\<rparr>"

text \<open>The provider refuses the restored session.\<close>

definition refused_restore_world :: world where
  "refused_restore_world =
     fresh_world\<lparr>login_tokens :=
       (\<lambda>path n. Some (Exn GarminConnectAuthenticationError ''Session expired''))\<rparr>"

text \<open>Automated mode with \<open>GARMINTOKENS\<close> naming a store.\<close>

definition automated_tokens_config :: config where
  "automated_tokens_config =
     load_config [''GARMIN_EMAIL'' \<mapsto> ''me@example.org'', ''GARMIN_PASSWORD'' \<mapsto> ''secret'',
                  ''MCP_MODE'' \<mapsto> ''1'', ''GARMINTOKENS'' \<mapsto> ''/data/garmin'']"

definition empty_fs :: fs where
  "empty_fs = \<lparr> dirs = {}, stores = Map.empty, files = Map.empty \<rparr>"

text \<open>A portable token of an earlier run is on disk.\<close>

definition stale_fs :: fs where
  "stale_fs = empty_fs\<lparr>files := [''/home/user/.garminconnect_base64'' \<mapsto> ''b2xkIHRva2Vu'']\<rparr>"

definition one_run :: pyval where
  "one_run = PDict [(''activityName'', PStr ''Morning Run''),
                    (''activityType'', PDict [(''typeKey'', PStr ''running'')]),
                    (''startTimeLocal'', PStr ''2024-05-01 07:00:00''),
                    (''activityId'', PInt 42)]"

definition untyped_activity :: pyval where
  "untyped_activity = PDict [(''activityId'', PInt 7), (''activityType'', PNone)]"

definition activities_world :: "exn + pyval \<Rightarrow> world" where
  "activities_world answer = fresh_world\<lparr>get_activities := (\<lambda>start limit. answer)\<rparr>"

section \<open>Theorems\<close>

subsection \<open>Shared lemmas\<close>

lemmas init_api_unfold =
  init_api_def outer_except_def report_def send_mcp_error_def dump_tokenstore_def
  dump_base64_def catches_def result_of_def trace_of_def fs_of_def Let_def

lemmas login_defs = login_outcome_def login_event_def login_client_def env_store_def

lemmas scenario_defs =
  fresh_world_def restorable_world_def unreadable_world_def configure_fails_world_def
  register_fails_world_def interactive_config_def automated_config_def
  automated_no_email_def empty_fs_def stale_fs_def load_config_def getenv_or_def
  home_expanduser_def activities_world_def rejecting_world_def incomplete_world_def
  refused_restore_world_def automated_tokens_config_def

lemma login_event_classes [simp]:
  "\<not> is_store_write (login_event w c e p n)"
  "\<not> is_portable_write (login_event w c e p n)"
  "\<not> is_free_text (login_event w c e p n)"
  "\<not> is_structured (login_event w c e p n)"
  "is_io (login_event w c e p n)"
  by (simp_all add: login_defs split: option.splits)

lemma login_returned_iff:
  "login_returned (PasswordLogin e p r) = (r = None)"
  "login_returned (TokenLogin path r) = (r = None)"
  by (cases r; simp)+

lemma login_event_returned [simp]:
  "login_returned (login_event w c e p n) = (login_outcome w c e p n = None)"
  by (simp add: login_defs login_returned_iff split: option.splits)

lemma login_event_password:
  "env_store c = None \<Longrightarrow> login_event w c e p n = PasswordLogin e p (login_password w e p)"
  "env_store c = None \<Longrightarrow> login_outcome w c e p n = login_password w e p"
  "env_store c = None \<Longrightarrow> login_client c e p = LoggedIn e p"
  by (simp_all add: login_outcome_def login_event_def login_client_def)

lemma login_event_restore:
  "env_store c = Some ts \<Longrightarrow> login_event w c e p n = TokenLogin ts (login_tokens w ts n)"
  "env_store c = Some ts \<Longrightarrow> login_outcome w c e p n = login_tokens w ts n"
  "env_store c = Some ts \<Longrightarrow> login_client c e p = Restored ts"
  by (simp_all add: login_outcome_def login_event_def login_client_def)

lemma guarded_split:
  "guarded ok (pre @ ev # post) \<Longrightarrow> is_store_write ev \<Longrightarrow>
   ok \<or> (\<exists>x \<in> set pre. login_returned x)"
  by (induction pre arbitrary: ok) auto

lemma guarded_append:
  "guarded ok xs \<Longrightarrow> list_all is_startup ys \<Longrightarrow> guarded ok (xs @ ys)"
proof (induction xs arbitrary: ok)
  case Nil
  then show ?case
  proof (induction ys arbitrary: ok)
    case Nil
    then show ?case by simp
  next
    case (Cons y ys)
    then show ?case by (cases y) simp_all
  qed
next
  case (Cons x xs)
  then show ?case by simp
qed

lemma init_api_guarded: "guarded False (trace_of (init_api w c em pw s))"
  by (cases em; cases pw) (auto simp: init_api_unfold split: option.splits)

lemma run_modules_configure: "list_all is_startup (fst (run_modules call Configure ms))"
  by (induction ms) (auto split: option.splits prod.splits)

lemma run_modules_register: "list_all is_startup (fst (run_modules call RegisterTools ms))"
  by (induction ms) (auto split: option.splits prod.splits)

lemma main_events:
  "\<exists>rest. events_of (main w c s) = trace_of (init_api w c (email c) (password c) s) @ rest
          \<and> list_all is_startup rest"
proof (cases "init_api w c (email c) (password c) s")
  case (fields r evs s')
  show ?thesis
  proof (cases r)
    case (Inl err)
    with fields show ?thesis by (simp add: main_def events_of_def trace_of_def)
  next
    case (Inr g)
    show ?thesis
    proof (cases g)
      case None
      with Inr fields show ?thesis
        by (simp add: main_def events_of_def trace_of_def send_mcp_error_def)
    next
      case (Some client)
      obtain cevs cr where conf: "run_modules (configure w) Configure modules = (cevs, cr)"
        by (cases "run_modules (configure w) Configure modules")
      obtain revs rr
        where reg: "run_modules (register_tools w) RegisterTools modules = (revs, rr)"
        by (cases "run_modules (register_tools w) RegisterTools modules")
      have c1: "list_all is_startup cevs"
        using run_modules_configure [of "configure w" modules] conf by simp
      have r1: "list_all is_startup revs"
        using run_modules_register [of "register_tools w" modules] reg by simp
      show ?thesis
        using Some Inr fields conf reg c1 r1
        by (cases cr; cases rr)
           (simp_all add: main_def events_of_def trace_of_def fatal_def send_mcp_error_def
              Let_def)
    qed
  qed
qed

lemma main_fs: "fs_after (main w c s) = fs_of (init_api w c (email c) (password c) s)"
  by (cases "init_api w c (email c) (password c) s")
     (auto simp: main_def fs_after_def fs_of_def Let_def
        split: sum.splits option.splits prod.splits)

lemma main_guarded: "guarded False (events_of (main w c s))"
proof -
  obtain rest
    where "events_of (main w c s) = trace_of (init_api w c (email c) (password c) s) @ rest"
      and "list_all is_startup rest"
    using main_events by blast
  then show ?thesis
    using guarded_append [OF init_api_guarded] by simp
qed

lemma main_portable:
  "filter is_portable_write (events_of (main w c s))
     = filter is_portable_write (trace_of (init_api w c (email c) (password c) s))"
proof -
  obtain rest
    where ev: "events_of (main w c s)
                 = trace_of (init_api w c (email c) (password c) s) @ rest"
      and st: "list_all is_startup rest"
    using main_events by blast
  have "filter is_portable_write rest = []"
    using st by (induction rest) (auto elim: is_startup.elims)
  with ev show ?thesis by simp
qed

lemma init_api_automated_portable:
  "mcp_mode c \<Longrightarrow>
   filter is_portable_write (trace_of (init_api w c em pw s)) = []
   \<and> files (fs_of (init_api w c em pw s)) = files s"
  by (cases em; cases pw) (auto simp: init_api_unfold split: option.splits)

subsection \<open>The bootstrap\<close>

text \<open>
  C1. When the e-mail or the password is absent or empty, in either mode,
  \<open>init_api\<close> returns no client after reporting the missing credentials (the
  structured notification in automated mode, the printed message otherwise), and the
  report is all it does: no event reaches the network or the file system, and the file
  system is as it was.
\<close>

theorem init_api_missing_credentials:
  "\<not> truthy_str em \<or> \<not> truthy_str pw \<Longrightarrow>
   result_of (init_api w c em pw s) = Inr None
   \<and> trace_of (init_api w c em pw s) =
       (if mcp_mode c then [StdoutJson (mcp_error_response missing_credentials_msg)]
        else [Print missing_credentials_msg])
   \<and> filter is_io (trace_of (init_api w c em pw s)) = []
   \<and> fs_of (init_api w c em pw s) = s"
  by (cases em; cases pw)
     (auto simp: init_api_def report_def send_mcp_error_def result_of_def trace_of_def
        fs_of_def)

theorem init_api_missing_credentials_witness:
  "\<not> truthy_str (Some [])
   \<and> result_of (init_api fresh_world automated_no_email (Some []) (Some ''x'') empty_fs)
       = Inr None
   \<and> trace_of (init_api fresh_world automated_no_email (Some []) (Some ''x'') empty_fs)
       = [StdoutJson (mcp_error_response missing_credentials_msg)]
   \<and> fs_of (init_api fresh_world automated_no_email (Some []) (Some ''x'') empty_fs)
       = empty_fs"
  using init_api_missing_credentials
    [where em = "Some []" and pw = "Some ''x''" and w = fresh_world
       and c = automated_no_email and s = empty_fs]
  by (simp add: automated_no_email_def load_config_def)

lemma automated_login_by_mode:
  assumes "mcp_mode c" "e \<noteq> []" "p \<noteq> []"
  shows "trace_of (init_api w c (Some e) (Some p) s) \<noteq> []"
    and "hd (trace_of (init_api w c (Some e) (Some p) s)) = login_event w c e p 0"
    and "env_store c = None \<Longrightarrow>
           hd (trace_of (init_api w c (Some e) (Some p) s))
             = PasswordLogin e p (login_password w e p)
           \<and> filter is_token_login (trace_of (init_api w c (Some e) (Some p) s)) = []"
    and "env_store c = Some ts \<Longrightarrow>
           hd (trace_of (init_api w c (Some e) (Some p) s))
             = TokenLogin ts (login_tokens w ts 0)
           \<and> filter is_password_login (trace_of (init_api w c (Some e) (Some p) s)) = []"
  using assms
  by (auto simp: init_api_unfold login_event_password login_event_restore
        split: option.splits)

text \<open>
  C2. In automated mode with a non-empty e-mail and password the source calls
  \<open>login()\<close> with no argument, under the comment that it always uses password
  authentication. The statement fails on the code whenever \<open>GARMINTOKENS\<close> names a
  store: here, with a store that restores, the run reads that store, makes no password
  login at all, and writes the restored session back.
\<close>

theorem automated_login_reads_garmintokens:
  "mcp_mode automated_tokens_config
   \<and> garmintokens automated_tokens_config = Some ''/data/garmin''
   \<and> trace_of (init_api restorable_world automated_tokens_config (Some ''me@example.org'')
                 (Some ''secret'') empty_fs)
       = [TokenLogin ''/data/garmin'' None, Makedirs ''/data/garmin'',
          GarthDump ''/data/garmin'']
   \<and> filter is_password_login
         (trace_of (init_api restorable_world automated_tokens_config
                      (Some ''me@example.org'') (Some ''secret'') empty_fs)) = []
   \<and> filter is_token_login
         (trace_of (init_api restorable_world automated_tokens_config
                      (Some ''me@example.org'') (Some ''secret'') empty_fs))
       = [TokenLogin ''/data/garmin'' None]"
  by (simp add: scenario_defs init_api_unfold login_defs)

text \<open>
  C3. In interactive mode, when the restore from the token store returns,
  \<open>init_api\<close> returns the restored client; the restore is the only event, so nothing
  is written to the token store or to the portable token, and the file system is
  unchanged.
\<close>

theorem interactive_restore_no_write:
  "\<not> mcp_mode c \<Longrightarrow> e \<noteq> [] \<Longrightarrow> p \<noteq> [] \<Longrightarrow> login_tokens w (tokenstore c) 0 = None \<Longrightarrow>
   result_of (init_api w c (Some e) (Some p) s) = Inr (Some (Restored (tokenstore c)))
   \<and> trace_of (init_api w c (Some e) (Some p) s) = [TokenLogin (tokenstore c) None]
   \<and> fs_of (init_api w c (Some e) (Some p) s) = s"
  by (simp add: init_api_unfold)

theorem interactive_restore_no_write_witness:
  "\<not> mcp_mode interactive_config
   \<and> login_tokens restorable_world (tokenstore interactive_config) 0 = None
   \<and> result_of (init_api restorable_world interactive_config (Some ''me@example.org'')
                  (Some ''secret'') stale_fs)
       = Inr (Some (Restored ''~/.garminconnect''))
   \<and> fs_of (init_api restorable_world interactive_config (Some ''me@example.org'')
              (Some ''secret'') stale_fs) = stale_fs"
  using interactive_restore_no_write
    [where c = interactive_config and e = "''me@example.org''" and p = "''secret''"
       and w = restorable_world and s = stale_fs]
  by (simp add: scenario_defs)

text \<open>
  C4. In interactive mode, when the token store is absent (the restore raises
  \<open>FileNotFoundError\<close>) and the fallback login returns, \<open>init_api\<close> creates the
  token directory and dumps the session to the token-store path, writes the portable
  encoding to the portable-token path so that the file holds exactly the new encoding
  whatever it held before (every other file is untouched), prints the notice and
  returns the client. The fallback login is the password login with the given
  credentials whenever \<open>GARMINTOKENS\<close> names no store.
\<close>

theorem interactive_fallback_persists:
  "\<not> mcp_mode c \<Longrightarrow> e \<noteq> [] \<Longrightarrow> p \<noteq> [] \<Longrightarrow>
   login_tokens w (tokenstore c) 0 = Some err \<Longrightarrow> cls err = FileNotFoundError \<Longrightarrow>
   login_outcome w c e p 1 = None \<Longrightarrow>
   result_of (init_api w c (Some e) (Some p) s) = Inr (Some (login_client c e p))
   \<and> trace_of (init_api w c (Some e) (Some p) s) =
       [TokenLogin (tokenstore c) (Some err), login_event w c e p 1,
        Makedirs (expanduser w (tokenstore c)), GarthDump (tokenstore c),
        GarthDumps,
        OpenWrite (expanduser w (tokenstore_base64 c)) (garth_dumps w (login_client c e p)),
        Print (''Oauth tokens stored for future use.'' @ [CHR 0x0A])]
   \<and> expanduser w (tokenstore c) \<in> dirs (fs_of (init_api w c (Some e) (Some p) s))
   \<and> stores (fs_of (init_api w c (Some e) (Some p) s)) (tokenstore c)
       = Some (login_client c e p)
   \<and> files (fs_of (init_api w c (Some e) (Some p) s))
       = (files s)(expanduser w (tokenstore_base64 c) \<mapsto> garth_dumps w (login_client c e p))
   \<and> (env_store c = None \<longrightarrow>
        login_event w c e p 1 = PasswordLogin e p None
        \<and> login_client c e p = LoggedIn e p)"
  by (auto simp: init_api_unfold login_event_password)

theorem interactive_fallback_persists_witness:
  "\<not> mcp_mode interactive_config
   \<and> env_store interactive_config = None
   \<and> login_password fresh_world ''me@example.org'' ''secret'' = None
   \<and> files stale_fs ''/home/user/.garminconnect_base64'' = Some ''b2xkIHRva2Vu''
   \<and> files (fs_of (init_api fresh_world interactive_config (Some ''me@example.org'')
                     (Some ''secret'') stale_fs)) ''/home/user/.garminconnect_base64''
       = Some ''dG9rZW4=''
   \<and> stores (fs_of (init_api fresh_world interactive_config (Some ''me@example.org'')
                      (Some ''secret'') stale_fs)) ''~/.garminconnect''
       = Some (LoggedIn ''me@example.org'' ''secret'')
   \<and> result_of (init_api fresh_world interactive_config (Some ''me@example.org'')
                  (Some ''secret'') stale_fs)
       = Inr (Some (LoggedIn ''me@example.org'' ''secret''))
   \<and> trace_of (init_api fresh_world interactive_config (Some ''me@example.org'')
                 (Some ''secret'') stale_fs)
       = [TokenLogin ''~/.garminconnect''
            (Some (Exn FileNotFoundError ''No such file or directory'')),
          PasswordLogin ''me@example.org'' ''secret'' None,
          Makedirs ''/home/user/.garminconnect'', GarthDump ''~/.garminconnect'',
          GarthDumps, OpenWrite ''/home/user/.garminconnect_base64'' ''dG9rZW4='',
          Print (''Oauth tokens stored for future use.'' @ [CHR 0x0A])]"
  using interactive_fallback_persists
    [where c = interactive_config and e = "''me@example.org''" and p = "''secret''"
       and w = fresh_world and s = stale_fs
       and err = "Exn FileNotFoundError ''No such file or directory''"]
  by (simp add: scenario_defs login_defs)

text \<open>
  C5, as the code has it. In interactive mode a restore that fails on an unreadable or
  a malformed store, and more generally with any exception that no handler of
  \<open>init_api\<close> names, is followed by no fallback login, no message and no write: the
  exception leaves \<open>init_api\<close> as it is. That is not what an absent store gets, nor
  a store whose directory lacks its token file: both raise \<open>FileNotFoundError\<close> and the
  fallback login is the next event. And it is not what an authentication failure gets:
  a \<open>GarminConnectAuthenticationError\<close> or an \<open>HTTPError\<close>, of the restore or of the
  fallback login, is printed as \<open>Authentication error: \<close> with its text, and no client
  is returned.
\<close>

theorem interactive_restore_failure_surfaces:
  "\<not> mcp_mode c \<Longrightarrow> e \<noteq> [] \<Longrightarrow> p \<noteq> [] \<Longrightarrow>
   login_tokens w (tokenstore c) 0 = Some err \<Longrightarrow>
   (\<forall>st. load_raises st = Some (cls err) \<longrightarrow> st = Unreadable \<or> st = Malformed \<longrightarrow>
      result_of (init_api w c (Some e) (Some p) s) = Inl err
      \<and> trace_of (init_api w c (Some e) (Some p) s) = [TokenLogin (tokenstore c) (Some err)]
      \<and> fs_of (init_api w c (Some e) (Some p) s) = s)
   \<and> (\<forall>st. load_raises st = Some (cls err) \<longrightarrow> st = Absent \<or> st = Incomplete \<longrightarrow>
      take 2 (trace_of (init_api w c (Some e) (Some p) s))
        = [TokenLogin (tokenstore c) (Some err), login_event w c e p 1])
   \<and> (catches [FileNotFoundError, GarthHTTPError] err \<longrightarrow>
      take 2 (trace_of (init_api w c (Some e) (Some p) s))
        = [TokenLogin (tokenstore c) (Some err), login_event w c e p 1])
   \<and> (catches [FileNotFoundError, GarthHTTPError] err \<longrightarrow>
      (\<forall>err'. login_outcome w c e p 1 = Some err' \<longrightarrow>
         catches [GarthHTTPError, GarminConnectAuthenticationError, HTTPError] err' \<longrightarrow>
         result_of (init_api w c (Some e) (Some p) s) = Inr None
         \<and> trace_of (init_api w c (Some e) (Some p) s)
             = [TokenLogin (tokenstore c) (Some err), login_event w c e p 1,
                Print (''Authentication error: '' @ message err')]
         \<and> fs_of (init_api w c (Some e) (Some p) s) = s))
   \<and> (\<not> catches [FileNotFoundError, GarthHTTPError] err \<longrightarrow>
      catches [GarminConnectAuthenticationError, HTTPError] err \<longrightarrow>
      result_of (init_api w c (Some e) (Some p) s) = Inr None
      \<and> trace_of (init_api w c (Some e) (Some p) s)
          = [TokenLogin (tokenstore c) (Some err),
             Print (''Authentication error: '' @ message err)]
      \<and> fs_of (init_api w c (Some e) (Some p) s) = s)
   \<and> (\<not> catches [FileNotFoundError, GarthHTTPError] err \<longrightarrow>
      \<not> catches [GarminConnectAuthenticationError, HTTPError] err \<longrightarrow>
      result_of (init_api w c (Some e) (Some p) s) = Inl err
      \<and> trace_of (init_api w c (Some e) (Some p) s) = [TokenLogin (tokenstore c) (Some err)]
      \<and> fs_of (init_api w c (Some e) (Some p) s) = s)"
proof (intro conjI allI impI)
  assume h: "\<not> mcp_mode c" "e \<noteq> []" "p \<noteq> []" "login_tokens w (tokenstore c) 0 = Some err"
  {
    fix st
    assume "load_raises st = Some (cls err)" and "st = Unreadable \<or> st = Malformed"
    then have "cls err = PermissionError \<or> cls err = JSONDecodeError" by auto
    with h show "result_of (init_api w c (Some e) (Some p) s) = Inl err"
      and "trace_of (init_api w c (Some e) (Some p) s) = [TokenLogin (tokenstore c) (Some err)]"
      and "fs_of (init_api w c (Some e) (Some p) s) = s"
      by (auto simp: init_api_unfold)
  }
  {
    fix st
    assume "load_raises st = Some (cls err)" and "st = Absent \<or> st = Incomplete"
    then have "cls err = FileNotFoundError" by auto
    with h show "take 2 (trace_of (init_api w c (Some e) (Some p) s))
        = [TokenLogin (tokenstore c) (Some err), login_event w c e p 1]"
      by (auto simp: init_api_unfold split: option.splits)
  }
  {
    assume "catches [FileNotFoundError, GarthHTTPError] err"
    with h show "take 2 (trace_of (init_api w c (Some e) (Some p) s))
        = [TokenLogin (tokenstore c) (Some err), login_event w c e p 1]"
      by (auto simp: init_api_unfold split: option.splits)
  }
  {
    fix err'
    assume "catches [FileNotFoundError, GarthHTTPError] err"
      and "login_outcome w c e p 1 = Some err'"
      and "catches [GarthHTTPError, GarminConnectAuthenticationError, HTTPError] err'"
    with h show "result_of (init_api w c (Some e) (Some p) s) = Inr None"
      and "trace_of (init_api w c (Some e) (Some p) s)
             = [TokenLogin (tokenstore c) (Some err), login_event w c e p 1,
                Print (''Authentication error: '' @ message err')]"
      and "fs_of (init_api w c (Some e) (Some p) s) = s"
      by (auto simp: init_api_unfold)
  }
  {
    assume "\<not> catches [FileNotFoundError, GarthHTTPError] err"
      and "catches [GarminConnectAuthenticationError, HTTPError] err"
    with h show "result_of (init_api w c (Some e) (Some p) s) = Inr None"
      and "trace_of (init_api w c (Some e) (Some p) s)
          = [TokenLogin (tokenstore c) (Some err),
             Print (''Authentication error: '' @ message err)]"
      and "fs_of (init_api w c (Some e) (Some p) s) = s"
      by (auto simp: init_api_unfold)
  }
  {
    assume "\<not> catches [FileNotFoundError, GarthHTTPError] err"
      and "\<not> catches [GarminConnectAuthenticationError, HTTPError] err"
    with h show "result_of (init_api w c (Some e) (Some p) s) = Inl err"
      and "trace_of (init_api w c (Some e) (Some p) s) = [TokenLogin (tokenstore c) (Some err)]"
      and "fs_of (init_api w c (Some e) (Some p) s) = s"
      by (auto simp: init_api_unfold)
  }
qed

theorem interactive_restore_failure_surfaces_witness:
  "\<not> mcp_mode interactive_config
   \<and> load_raises Unreadable = Some (cls (Exn PermissionError ''Permission denied''))
   \<and> result_of (init_api unreadable_world interactive_config (Some ''me@example.org'')
                  (Some ''secret'') empty_fs)
       = Inl (Exn PermissionError ''Permission denied'')
   \<and> trace_of (init_api unreadable_world interactive_config (Some ''me@example.org'')
                 (Some ''secret'') empty_fs)
       = [TokenLogin ''~/.garminconnect'' (Some (Exn PermissionError ''Permission denied''))]
   \<and> result_of (init_api refused_restore_world interactive_config (Some ''me@example.org'')
                  (Some ''secret'') empty_fs) = Inr None
   \<and> trace_of (init_api refused_restore_world interactive_config (Some ''me@example.org'')
                 (Some ''secret'') empty_fs)
       = [TokenLogin ''~/.garminconnect''
            (Some (Exn GarminConnectAuthenticationError ''Session expired'')),
          Print (''Authentication error: ''
                   @ message (Exn GarminConnectAuthenticationError ''Session expired''))]
   \<and> load_raises Absent = Some (cls (Exn FileNotFoundError ''No such file or directory''))
   \<and> take 2 (trace_of (init_api fresh_world interactive_config (Some ''me@example.org'')
                         (Some ''secret'') empty_fs))
       = [TokenLogin ''~/.garminconnect''
            (Some (Exn FileNotFoundError ''No such file or directory'')),
          login_event fresh_world interactive_config ''me@example.org'' ''secret'' 1]"
proof -
  have m: "\<not> mcp_mode interactive_config"
    by (simp add: scenario_defs)
  have ne: "''me@example.org'' \<noteq> []" "''secret'' \<noteq> []"
    by simp_all
  have r1: "login_tokens unreadable_world (tokenstore interactive_config) 0
              = Some (Exn PermissionError ''Permission denied'')"
    by (simp add: scenario_defs)
  have r2: "login_tokens refused_restore_world (tokenstore interactive_config) 0
              = Some (Exn GarminConnectAuthenticationError ''Session expired'')"
    by (simp add: scenario_defs)
  have r3: "login_tokens fresh_world (tokenstore interactive_config) 0
              = Some (Exn FileNotFoundError ''No such file or directory'')"
    by (simp add: scenario_defs)
  have ts: "tokenstore interactive_config = ''~/.garminconnect''"
    by (simp add: scenario_defs)
  have l1: "load_raises Unreadable = Some (cls (Exn PermissionError ''Permission denied''))"
    by simp
  have l3: "load_raises Absent = Some (cls (Exn FileNotFoundError ''No such file or directory''))"
    by simp
  have c2: "\<not> catches [FileNotFoundError, GarthHTTPError]
               (Exn GarminConnectAuthenticationError ''Session expired'')"
    "catches [GarminConnectAuthenticationError, HTTPError]
       (Exn GarminConnectAuthenticationError ''Session expired'')"
    by (simp_all add: catches_def)
  note a = interactive_restore_failure_surfaces [OF m ne r1, where s = empty_fs]
  note b = interactive_restore_failure_surfaces [OF m ne r2, where s = empty_fs]
  note d = interactive_restore_failure_surfaces [OF m ne r3, where s = empty_fs]
  from a l1
  have a1: "result_of (init_api unreadable_world interactive_config (Some ''me@example.org'')
                  (Some ''secret'') empty_fs)
       = Inl (Exn PermissionError ''Permission denied'')
     \<and> trace_of (init_api unreadable_world interactive_config (Some ''me@example.org'')
                 (Some ''secret'') empty_fs)
       = [TokenLogin (tokenstore interactive_config)
            (Some (Exn PermissionError ''Permission denied''))]"
    by blast
  from b c2
  have b1: "result_of (init_api refused_restore_world interactive_config
                (Some ''me@example.org'') (Some ''secret'') empty_fs) = Inr None
     \<and> trace_of (init_api refused_restore_world interactive_config (Some ''me@example.org'')
                 (Some ''secret'') empty_fs)
       = [TokenLogin (tokenstore interactive_config)
            (Some (Exn GarminConnectAuthenticationError ''Session expired'')),
          Print (''Authentication error: ''
                   @ message (Exn GarminConnectAuthenticationError ''Session expired''))]"
    by blast
  from d l3
  have d1: "take 2 (trace_of (init_api fresh_world interactive_config (Some ''me@example.org'')
                         (Some ''secret'') empty_fs))
       = [TokenLogin (tokenstore interactive_config)
            (Some (Exn FileNotFoundError ''No such file or directory'')),
          login_event fresh_world interactive_config ''me@example.org'' ''secret'' 1]"
    by blast
  from m l1 l3 a1 b1 d1 show ?thesis
    unfolding ts by blast
qed

text \<open>
  C5, as the specification states it, fails: a token store whose directory is there
  without its token file is present and unusable, the restore raises
  \<open>FileNotFoundError\<close> for it as for an absent store, and the password login is tried.
\<close>

theorem incomplete_store_falls_back:
  "present_unusable Incomplete
   \<and> load_raises Incomplete
       = Some (cls (Exn FileNotFoundError ''No such file: oauth1_token.json''))
   \<and> login_tokens incomplete_world (tokenstore interactive_config) 0
       = Some (Exn FileNotFoundError ''No such file: oauth1_token.json'')
   \<and> trace_of (init_api incomplete_world interactive_config (Some ''me@example.org'')
                 (Some ''secret'') empty_fs)
       = [TokenLogin ''~/.garminconnect''
            (Some (Exn FileNotFoundError ''No such file: oauth1_token.json'')),
          PasswordLogin ''me@example.org'' ''secret'' None,
          Makedirs ''/home/user/.garminconnect'', GarthDump ''~/.garminconnect'',
          GarthDumps, OpenWrite ''/home/user/.garminconnect_base64'' ''dG9rZW4='',
          Print (''Oauth tokens stored for future use.'' @ [CHR 0x0A])]
   \<and> result_of (init_api incomplete_world interactive_config (Some ''me@example.org'')
                  (Some ''secret'') empty_fs)
       = Inr (Some (LoggedIn ''me@example.org'' ''secret''))"
  by (simp add: scenario_defs init_api_unfold login_defs)

subsection \<open>Persistence invariants\<close>

lemma outer_except_portable:
  "filter is_portable_write (fst (snd (outer_except c evs err s)))
     = filter is_portable_write evs"
  by (simp add: outer_except_def report_def send_mcp_error_def)

lemma init_api_portable_fallback:
  assumes ne: "filter is_portable_write (trace_of (init_api w c em pw s)) \<noteq> []"
  shows "\<exists>e p err. em = Some e \<and> pw = Some p
              \<and> login_tokens w (tokenstore c) 0 = Some err
              \<and> catches [FileNotFoundError, GarthHTTPError] err
              \<and> login_outcome w c e p 1 = None"
proof (cases em)
  case None
  with ne show ?thesis
    by (simp add: init_api_def trace_of_def report_def send_mcp_error_def)
next
  case em: (Some e)
  show ?thesis
  proof (cases pw)
    case None
    with em ne show ?thesis
      by (simp add: init_api_def trace_of_def report_def send_mcp_error_def)
  next
    case pw: (Some p)
    have filled: "e \<noteq> [] \<and> p \<noteq> []"
    proof (rule ccontr)
      assume "\<not> (e \<noteq> [] \<and> p \<noteq> [])"
      with em pw ne show False
        by (auto simp: init_api_def trace_of_def report_def send_mcp_error_def)
    qed
    have inter: "\<not> mcp_mode c"
      using ne init_api_automated_portable by blast
    show ?thesis
    proof (cases "login_tokens w (tokenstore c) 0")
      case None
      with em pw filled inter ne show ?thesis
        by (simp add: init_api_def trace_of_def)
    next
      case restore: (Some err)
      show ?thesis
      proof (cases "catches [FileNotFoundError, GarthHTTPError] err")
        case False
        with em pw filled inter restore ne show ?thesis
          by (simp add: init_api_def trace_of_def outer_except_portable)
      next
        case True
        show ?thesis
        proof (cases "login_outcome w c e p 1")
          case None
          with em pw restore True show ?thesis by simp
        next
          case (Some err')
          with em pw filled inter restore True ne show ?thesis
            by (simp add: init_api_def trace_of_def outer_except_portable)
        qed
      qed
    qed
  qed
qed

lemma store_write_after_returned_login:
  assumes "trace_of (init_api w c em pw s) = pre @ ev # post
             \<or> events_of (main w c s) = pre @ ev # post"
    and "is_store_write ev"
  shows "\<exists>x \<in> set pre. login_returned x"
proof -
  from assms(1) have "guarded False (pre @ ev # post)"
    using init_api_guarded [of w c em pw s] main_guarded [of w c s] by auto
  from guarded_split [OF this assms(2)] show ?thesis by simp
qed

text \<open>
  C7. Both paths that write the token store call \<open>login()\<close> with no argument first,
  under comments that name it password authentication, and every store write does come
  after a login that returned (\<open>store_write_after_returned_login\<close>). The statement
  fails on the code whenever \<open>GARMINTOKENS\<close> names a store: here, in automated mode
  with a store that restores, the directory is created and the store is written after
  a restore from that store, and no password login is made at any point.
\<close>

theorem store_write_without_password_login:
  "trace_of (init_api restorable_world automated_tokens_config (Some ''me@example.org'')
               (Some ''secret'') stale_fs)
     = [TokenLogin ''/data/garmin'' None]
         @ Makedirs ''/data/garmin'' # [GarthDump ''/data/garmin'']
   \<and> is_store_write (Makedirs ''/data/garmin'')
   \<and> filter is_password_login [TokenLogin ''/data/garmin'' None] = []
   \<and> filter is_password_login
         (trace_of (init_api restorable_world automated_tokens_config
                      (Some ''me@example.org'') (Some ''secret'') stale_fs)) = []
   \<and> stores stale_fs ''/data/garmin'' = None
   \<and> stores (fs_after (main restorable_world automated_tokens_config stale_fs))
        ''/data/garmin'' = Some (Restored ''/data/garmin'')"
  by (simp add: main_fs) (simp add: scenario_defs init_api_unfold login_defs)

text \<open>
  C8. In automated mode no run of \<open>init_api\<close> or of \<open>main\<close> encodes or writes the
  portable token, and the files are what they were. Whenever a run of \<open>init_api\<close>
  does encode or write it, the mode is interactive, the restore from the token store
  raised one of the two exceptions that fall back, and the fallback login returned.
\<close>

theorem portable_token_interactive_only:
  "(mcp_mode c \<longrightarrow>
      filter is_portable_write (trace_of (init_api w c em pw s)) = []
      \<and> files (fs_of (init_api w c em pw s)) = files s
      \<and> filter is_portable_write (events_of (main w c s)) = []
      \<and> files (fs_after (main w c s)) = files s)
   \<and> (filter is_portable_write (trace_of (init_api w c em pw s)) \<noteq> [] \<longrightarrow>
        \<not> mcp_mode c
        \<and> (\<exists>e p err. em = Some e \<and> pw = Some p
              \<and> login_tokens w (tokenstore c) 0 = Some err
              \<and> catches [FileNotFoundError, GarthHTTPError] err
              \<and> login_outcome w c e p 1 = None))"
proof (intro conjI impI)
  assume m: "mcp_mode c"
  show "filter is_portable_write (trace_of (init_api w c em pw s)) = []"
    using init_api_automated_portable [OF m] by simp
  show "files (fs_of (init_api w c em pw s)) = files s"
    using init_api_automated_portable [OF m] by simp
  show "filter is_portable_write (events_of (main w c s)) = []"
    using init_api_automated_portable [OF m] by (simp add: main_portable)
  show "files (fs_after (main w c s)) = files s"
    using init_api_automated_portable [OF m] by (simp add: main_fs)
next
  assume ne: "filter is_portable_write (trace_of (init_api w c em pw s)) \<noteq> []"
  then show "\<not> mcp_mode c"
    using init_api_automated_portable by blast
  from ne show "\<exists>e p err. em = Some e \<and> pw = Some p
              \<and> login_tokens w (tokenstore c) 0 = Some err
              \<and> catches [FileNotFoundError, GarthHTTPError] err
              \<and> login_outcome w c e p 1 = None"
    by (rule init_api_portable_fallback)
qed

theorem portable_token_interactive_only_witness:
  "mcp_mode automated_config
   \<and> filter is_portable_write (events_of (main fresh_world automated_config stale_fs)) = []
   \<and> files (fs_after (main fresh_world automated_config stale_fs)) = files stale_fs
   \<and> filter is_portable_write
        (trace_of (init_api fresh_world interactive_config (Some ''me@example.org'')
                     (Some ''secret'') stale_fs)) \<noteq> []
   \<and> \<not> mcp_mode interactive_config"
proof -
  have m: "mcp_mode automated_config"
    by (simp add: scenario_defs)
  have ne: "filter is_portable_write
        (trace_of (init_api fresh_world interactive_config (Some ''me@example.org'')
                     (Some ''secret'') stale_fs)) \<noteq> []"
    by (simp add: scenario_defs init_api_unfold login_defs)
  from portable_token_interactive_only
         [where c = automated_config and w = fresh_world and s = stale_fs
            and em = "email automated_config" and pw = "password automated_config"] m
  have a: "filter is_portable_write (events_of (main fresh_world automated_config stale_fs)) = []
           \<and> files (fs_after (main fresh_world automated_config stale_fs)) = files stale_fs"
    by blast
  from portable_token_interactive_only
         [where c = interactive_config and w = fresh_world and s = stale_fs
            and em = "Some ''me@example.org''" and pw = "Some ''secret''"] ne
  have b: "\<not> mcp_mode interactive_config"
    by blast
  from m ne a b show ?thesis by blast
qed

subsection \<open>Failure signalling of \<open>main\<close>\<close>

lemma run_modules_free_text:
  "filter is_free_text (fst (run_modules call Configure ms)) = []"
  "filter is_free_text (fst (run_modules call RegisterTools ms)) = []"
  by (induction ms) (auto split: option.splits prod.splits)

lemma run_modules_structured:
  "filter is_structured (fst (run_modules call Configure ms)) = []"
  "filter is_structured (fst (run_modules call RegisterTools ms)) = []"
  by (induction ms) (auto split: option.splits prod.splits)

lemma init_api_automated_free_text:
  "mcp_mode c \<Longrightarrow> filter is_free_text (trace_of (init_api w c em pw s)) = []"
  by (cases em; cases pw) (auto simp: init_api_unfold split: option.splits)

lemma init_api_automated_client:
  "mcp_mode c \<Longrightarrow> result_of (init_api w c em pw s) = Inr (Some g) \<Longrightarrow>
   filter is_structured (trace_of (init_api w c em pw s)) = []"
  by (cases em; cases pw) (auto simp: init_api_unfold split: option.splits if_splits)

lemma init_api_automated_none:
  "mcp_mode c \<Longrightarrow> result_of (init_api w c em pw s) = Inr None \<Longrightarrow>
   \<exists>msg. filter is_structured (trace_of (init_api w c em pw s))
           = [StdoutJson (mcp_error_response msg)]"
  by (cases em; cases pw) (auto simp: init_api_unfold split: option.splits if_splits)

lemma main_free_text:
  assumes m: "mcp_mode c"
  shows "filter is_free_text (events_of (main w c s)) = []"
proof (cases "init_api w c (email c) (password c) s")
  case (fields r evs s')
  have evs: "filter is_free_text evs = []"
    using init_api_automated_free_text [OF m, of w "email c" "password c" s] fields
    by (simp add: trace_of_def)
  obtain cevs cr where conf: "run_modules (configure w) Configure modules = (cevs, cr)"
    by (cases "run_modules (configure w) Configure modules")
  obtain revs rr where reg: "run_modules (register_tools w) RegisterTools modules = (revs, rr)"
    by (cases "run_modules (register_tools w) RegisterTools modules")
  have c1: "filter is_free_text cevs = []"
    using run_modules_free_text(1) [of "configure w" modules] conf by simp
  have r1: "filter is_free_text revs = []"
    using run_modules_free_text(2) [of "register_tools w" modules] reg by simp
  show ?thesis
    using m fields evs conf reg c1 r1
    by (cases r; cases cr; cases rr)
       (auto simp: main_def events_of_def fatal_def send_mcp_error_def Let_def
          split: option.splits)
qed

lemma main_no_client:
  assumes m: "mcp_mode c"
    and none: "result_of (init_api w c (email c) (password c) s) = Inr None"
  shows "outcome_of (main w c s) = Exited 1
         \<and> (\<exists>msg. filter is_structured (events_of (main w c s))
                   = [StdoutJson (mcp_error_response msg),
                      StdoutJson (mcp_error_response initialize_failed_msg)])"
proof (cases "init_api w c (email c) (password c) s")
  case (fields r evs s')
  from none fields have r: "r = Inr None" by (simp add: result_of_def)
  obtain msg where "filter is_structured evs = [StdoutJson (mcp_error_response msg)]"
    using init_api_automated_none [OF m none] fields by (auto simp: trace_of_def)
  then show ?thesis
    using m fields r
    by (auto simp: main_def outcome_of_def events_of_def send_mcp_error_def
          initialize_failed_msg_def)
qed

lemma main_configure_fails:
  assumes m: "mcp_mode c"
    and ok: "result_of (init_api w c (email c) (password c) s) = Inr (Some g)"
    and bad: "snd (run_modules (configure w) Configure modules) = Some err"
  shows "outcome_of (main w c s) = Exited 1
         \<and> filter is_structured (events_of (main w c s))
             = [StdoutJson (mcp_error_response (''Failed to configure modules: '' @ message err))]"
proof (cases "init_api w c (email c) (password c) s")
  case (fields r evs s')
  from ok fields have r: "r = Inr (Some g)" by (simp add: result_of_def)
  have evs: "filter is_structured evs = []"
    using init_api_automated_client [OF m ok] fields by (simp add: trace_of_def)
  obtain cevs where conf: "run_modules (configure w) Configure modules = (cevs, Some err)"
    using bad by (cases "run_modules (configure w) Configure modules") simp
  have c1: "filter is_structured cevs = []"
    using run_modules_structured(1) [of "configure w" modules] conf by simp
  show ?thesis
    using m fields r evs conf c1
    by (simp add: main_def outcome_of_def events_of_def fatal_def send_mcp_error_def)
qed

lemma main_register_fails:
  assumes m: "mcp_mode c"
    and ok: "result_of (init_api w c (email c) (password c) s) = Inr (Some g)"
    and good: "snd (run_modules (configure w) Configure modules) = None"
    and bad: "snd (run_modules (register_tools w) RegisterTools modules) = Some err"
  shows "outcome_of (main w c s) = Exited 1
         \<and> filter is_structured (events_of (main w c s))
             = [StdoutJson (mcp_error_response (''Failed to register tools: '' @ message err))]"
proof (cases "init_api w c (email c) (password c) s")
  case (fields r evs s')
  from ok fields have r: "r = Inr (Some g)" by (simp add: result_of_def)
  have evs: "filter is_structured evs = []"
    using init_api_automated_client [OF m ok] fields by (simp add: trace_of_def)
  obtain cevs where conf: "run_modules (configure w) Configure modules = (cevs, None)"
    using good by (cases "run_modules (configure w) Configure modules") simp
  obtain revs where reg: "run_modules (register_tools w) RegisterTools modules = (revs, Some err)"
    using bad by (cases "run_modules (register_tools w) RegisterTools modules") simp
  have c1: "filter is_structured cevs = []"
    using run_modules_structured(1) [of "configure w" modules] conf by simp
  have r1: "filter is_structured revs = []"
    using run_modules_structured(2) [of "register_tools w" modules] reg by simp
  show ?thesis
    using m fields r evs conf reg c1 r1
    by (simp add: main_def outcome_of_def events_of_def fatal_def send_mcp_error_def)
qed

lemma main_exit_status:
  "outcome_of (main w c s) = Exited n \<Longrightarrow> n = 1 \<and> mcp_mode c"
  by (cases "init_api w c (email c) (password c) s")
     (auto simp: main_def outcome_of_def fatal_def Let_def
        split: sum.splits option.splits prod.splits if_splits)

lemma init_api_missing:
  "\<not> truthy_str em \<or> \<not> truthy_str pw \<Longrightarrow>
   init_api w c em pw s = (Inr None, report c missing_credentials_msg, s)"
  by (cases em; cases pw) (auto simp: init_api_def)

lemma main_missing_credentials:
  assumes m: "mcp_mode c"
    and missing: "\<not> truthy_str (email c) \<or> \<not> truthy_str (password c)"
  shows "outcome_of (main w c s) = Exited 1
         \<and> events_of (main w c s)
             = [StdoutJson (mcp_error_response missing_credentials_msg),
                StdoutJson (mcp_error_response initialize_failed_msg)]"
  using m init_api_missing [OF missing, of w c s]
  by (simp add: main_def outcome_of_def events_of_def report_def send_mcp_error_def
        initialize_failed_msg_def)

lemma main_authentication_error:
  assumes m: "mcp_mode c"
    and creds: "email c = Some e" "password c = Some p" "e \<noteq> []" "p \<noteq> []"
    and raised: "login_outcome w c e p 0 = Some err"
    and caught: "catches [GarthHTTPError, GarminConnectAuthenticationError, HTTPError] err"
  shows "outcome_of (main w c s) = Exited 1
         \<and> events_of (main w c s)
             = [login_event w c e p 0,
                StdoutJson (mcp_error_response (''Authentication error: '' @ message err)),
                StdoutJson (mcp_error_response initialize_failed_msg)]"
proof -
  have "init_api w c (email c) (password c) s
          = (Inr None,
             [login_event w c e p 0,
              StdoutJson (mcp_error_response (''Authentication error: '' @ message err))], s)"
    using m creds raised caught
    by (simp add: init_api_def outer_except_def report_def send_mcp_error_def)
  with m show ?thesis
    by (simp add: main_def outcome_of_def events_of_def send_mcp_error_def
          initialize_failed_msg_def)
qed

text \<open>
  C6, as the code has it. In automated mode \<open>main\<close> never prints free-form text to
  standard output, and every failure it handles ends with exit status 1 after
  structured notifications only. When \<open>init_api\<close> returns no client there are two:
  for missing credentials the message that names the two variables, for a login that
  raised one of the three exceptions of the outer handler \<open>Authentication error: \<close>
  with the exception's text, and after either the message of \<open>main\<close>. When
  configuring the modules raises, or registering the tools, there is one.
\<close>

theorem automated_failure_notifications:
  "mcp_mode c \<Longrightarrow>
   filter is_free_text (events_of (main w c s)) = []
   \<and> (\<not> truthy_str (email c) \<or> \<not> truthy_str (password c) \<longrightarrow>
        outcome_of (main w c s) = Exited 1
        \<and> events_of (main w c s)
            = [StdoutJson (mcp_error_response missing_credentials_msg),
               StdoutJson (mcp_error_response initialize_failed_msg)])
   \<and> (\<forall>e p err. email c = Some e \<longrightarrow> password c = Some p \<longrightarrow> e \<noteq> [] \<longrightarrow> p \<noteq> [] \<longrightarrow>
        login_outcome w c e p 0 = Some err \<longrightarrow>
        catches [GarthHTTPError, GarminConnectAuthenticationError, HTTPError] err \<longrightarrow>
        outcome_of (main w c s) = Exited 1
        \<and> events_of (main w c s)
            = [login_event w c e p 0,
               StdoutJson (mcp_error_response (''Authentication error: '' @ message err)),
               StdoutJson (mcp_error_response initialize_failed_msg)])
   \<and> (result_of (init_api w c (email c) (password c) s) = Inr None \<longrightarrow>
        outcome_of (main w c s) = Exited 1
        \<and> (\<exists>msg. filter is_structured (events_of (main w c s))
                  = [StdoutJson (mcp_error_response msg),
                     StdoutJson (mcp_error_response initialize_failed_msg)]))
   \<and> (\<forall>g err. result_of (init_api w c (email c) (password c) s) = Inr (Some g) \<longrightarrow>
        snd (run_modules (configure w) Configure modules) = Some err \<longrightarrow>
        outcome_of (main w c s) = Exited 1
        \<and> filter is_structured (events_of (main w c s))
            = [StdoutJson (mcp_error_response
                             (''Failed to configure modules: '' @ message err))])
   \<and> (\<forall>g err. result_of (init_api w c (email c) (password c) s) = Inr (Some g) \<longrightarrow>
        snd (run_modules (configure w) Configure modules) = None \<longrightarrow>
        snd (run_modules (register_tools w) RegisterTools modules) = Some err \<longrightarrow>
        outcome_of (main w c s) = Exited 1
        \<and> filter is_structured (events_of (main w c s))
            = [StdoutJson (mcp_error_response
                             (''Failed to register tools: '' @ message err))])
   \<and> (\<forall>n. outcome_of (main w c s) = Exited n \<longrightarrow> exit_status (outcome_of (main w c s)) = 1)"
proof (intro conjI allI impI)
  assume m: "mcp_mode c"
  show "filter is_free_text (events_of (main w c s)) = []"
    by (rule main_free_text [OF m])
  {
    assume "\<not> truthy_str (email c) \<or> \<not> truthy_str (password c)"
    from main_missing_credentials [OF m this]
    show "outcome_of (main w c s) = Exited 1"
      and "events_of (main w c s)
            = [StdoutJson (mcp_error_response missing_credentials_msg),
               StdoutJson (mcp_error_response initialize_failed_msg)]"
      by simp_all
  }
  {
    fix e p err
    assume "email c = Some e" "password c = Some p" "e \<noteq> []" "p \<noteq> []"
      "login_outcome w c e p 0 = Some err"
      "catches [GarthHTTPError, GarminConnectAuthenticationError, HTTPError] err"
    from main_authentication_error [OF m this]
    show "outcome_of (main w c s) = Exited 1"
      and "events_of (main w c s)
            = [login_event w c e p 0,
               StdoutJson (mcp_error_response (''Authentication error: '' @ message err)),
               StdoutJson (mcp_error_response initialize_failed_msg)]"
      by simp_all
  }
  {
    assume "result_of (init_api w c (email c) (password c) s) = Inr None"
    from main_no_client [OF m this]
    show "outcome_of (main w c s) = Exited 1"
      and "\<exists>msg. filter is_structured (events_of (main w c s))
                  = [StdoutJson (mcp_error_response msg),
                     StdoutJson (mcp_error_response initialize_failed_msg)]"
      by simp_all
  }
  {
    fix g err
    assume "result_of (init_api w c (email c) (password c) s) = Inr (Some g)"
      and "snd (run_modules (configure w) Configure modules) = Some err"
    from main_configure_fails [OF m this]
    show "outcome_of (main w c s) = Exited 1"
      and "filter is_structured (events_of (main w c s))
            = [StdoutJson (mcp_error_response
                             (''Failed to configure modules: '' @ message err))]"
      by simp_all
  }
  {
    fix g err
    assume "result_of (init_api w c (email c) (password c) s) = Inr (Some g)"
      and "snd (run_modules (configure w) Configure modules) = None"
      and "snd (run_modules (register_tools w) RegisterTools modules) = Some err"
    from main_register_fails [OF m this]
    show "outcome_of (main w c s) = Exited 1"
      and "filter is_structured (events_of (main w c s))
            = [StdoutJson (mcp_error_response
                             (''Failed to register tools: '' @ message err))]"
      by simp_all
  }
  {
    fix n
    assume "outcome_of (main w c s) = Exited n"
    with main_exit_status [OF this]
    show "exit_status (outcome_of (main w c s)) = 1" by simp
  }
qed

theorem automated_failure_notifications_witness:
  "mcp_mode automated_no_email
   \<and> \<not> truthy_str (email automated_no_email)
   \<and> outcome_of (main fresh_world automated_no_email empty_fs) = Exited 1
   \<and> events_of (main fresh_world automated_no_email empty_fs)
       = [StdoutJson (mcp_error_response missing_credentials_msg),
          StdoutJson (mcp_error_response initialize_failed_msg)]
   \<and> login_outcome rejecting_world automated_config ''me@example.org'' ''secret'' 0
       = Some (Exn GarminConnectAuthenticationError ''Invalid credentials'')
   \<and> events_of (main rejecting_world automated_config empty_fs)
       = [login_event rejecting_world automated_config ''me@example.org'' ''secret'' 0,
          StdoutJson (mcp_error_response
            (''Authentication error: ''
               @ message (Exn GarminConnectAuthenticationError ''Invalid credentials''))),
          StdoutJson (mcp_error_response initialize_failed_msg)]
   \<and> snd (run_modules (configure configure_fails_world) Configure modules)
       = Some (Exn (OtherException ''RuntimeError'') ''boom'')
   \<and> filter is_structured (events_of (main configure_fails_world automated_config empty_fs))
       = [StdoutJson (mcp_error_response
                        (''Failed to configure modules: ''
                           @ message (Exn (OtherException ''RuntimeError'') ''boom'')))]
   \<and> snd (run_modules (register_tools register_fails_world) RegisterTools modules)
       = Some (Exn (OtherException ''ValueError'') ''duplicate tool'')
   \<and> filter is_structured (events_of (main register_fails_world automated_config empty_fs))
       = [StdoutJson (mcp_error_response
                        (''Failed to register tools: ''
                           @ message (Exn (OtherException ''ValueError'') ''duplicate tool'')))]"
proof -
  have m0: "mcp_mode automated_no_email" and m1: "mcp_mode automated_config"
    by (simp_all add: scenario_defs)
  have missing: "\<not> truthy_str (email automated_no_email)"
    by (simp add: scenario_defs)
  have creds: "email automated_config = Some ''me@example.org''"
    "password automated_config = Some ''secret''"
    by (simp_all add: scenario_defs)
  have ne: "''me@example.org'' \<noteq> []" "''secret'' \<noteq> []"
    by simp_all
  have raised: "login_outcome rejecting_world automated_config ''me@example.org'' ''secret'' 0
                  = Some (Exn GarminConnectAuthenticationError ''Invalid credentials'')"
    by (simp add: scenario_defs login_defs)
  have caught: "catches [GarthHTTPError, GarminConnectAuthenticationError, HTTPError]
                  (Exn GarminConnectAuthenticationError ''Invalid credentials'')"
    by (simp add: catches_def)
  have ok1: "result_of (init_api configure_fails_world automated_config
                (email automated_config) (password automated_config) empty_fs)
               = Inr (Some (LoggedIn ''me@example.org'' ''secret''))"
    by (simp add: scenario_defs init_api_unfold login_defs)
  have ok2: "result_of (init_api register_fails_world automated_config
                (email automated_config) (password automated_config) empty_fs)
               = Inr (Some (LoggedIn ''me@example.org'' ''secret''))"
    by (simp add: scenario_defs init_api_unfold login_defs)
  have bad1: "snd (run_modules (configure configure_fails_world) Configure modules)
                = Some (Exn (OtherException ''RuntimeError'') ''boom'')"
    by (simp add: scenario_defs modules_def)
  have good2: "snd (run_modules (configure register_fails_world) Configure modules) = None"
    by (simp add: scenario_defs modules_def)
  have bad2: "snd (run_modules (register_tools register_fails_world) RegisterTools modules)
                = Some (Exn (OtherException ''ValueError'') ''duplicate tool'')"
    by (simp add: scenario_defs modules_def)
  note a = automated_failure_notifications
             [OF m0, where w = fresh_world and s = empty_fs]
  note r = automated_failure_notifications
             [OF m1, where w = rejecting_world and s = empty_fs]
  note b = automated_failure_notifications
             [OF m1, where w = configure_fails_world and s = empty_fs]
  note c = automated_failure_notifications
             [OF m1, where w = register_fails_world and s = empty_fs]
  from a missing
  have a1: "outcome_of (main fresh_world automated_no_email empty_fs) = Exited 1
     \<and> events_of (main fresh_world automated_no_email empty_fs)
       = [StdoutJson (mcp_error_response missing_credentials_msg),
          StdoutJson (mcp_error_response initialize_failed_msg)]"
    by blast
  from r creds ne raised caught
  have r1: "events_of (main rejecting_world automated_config empty_fs)
       = [login_event rejecting_world automated_config ''me@example.org'' ''secret'' 0,
          StdoutJson (mcp_error_response
            (''Authentication error: ''
               @ message (Exn GarminConnectAuthenticationError ''Invalid credentials''))),
          StdoutJson (mcp_error_response initialize_failed_msg)]"
    by blast
  from b ok1 bad1
  have b1: "filter is_structured (events_of (main configure_fails_world automated_config empty_fs))
       = [StdoutJson (mcp_error_response
                        (''Failed to configure modules: ''
                           @ message (Exn (OtherException ''RuntimeError'') ''boom'')))]"
    by blast
  from c ok2 good2 bad2
  have c1: "filter is_structured (events_of (main register_fails_world automated_config empty_fs))
       = [StdoutJson (mcp_error_response
                        (''Failed to register tools: ''
                           @ message (Exn (OtherException ''ValueError'') ''duplicate tool'')))]"
    by blast
  from m0 missing a1 raised r1 bad1 b1 bad2 c1 show ?thesis by blast
qed

text \<open>
  C6, as the specification states it, fails: with an empty e-mail in automated mode the
  process writes two structured notifications before it exits, not one.
\<close>

theorem automated_double_notification:
  "outcome_of (main fresh_world automated_no_email empty_fs) = Exited 1
   \<and> filter is_structured (events_of (main fresh_world automated_no_email empty_fs))
       = [StdoutJson (mcp_error_response missing_credentials_msg),
          StdoutJson (mcp_error_response initialize_failed_msg)]
   \<and> length (filter is_structured (events_of (main fresh_world automated_no_email empty_fs)))
       \<noteq> 1"
  by (simp add: scenario_defs main_def init_api_unfold outcome_of_def events_of_def
        initialize_failed_msg_def)

subsection \<open>The activity listing\<close>

lemma format_activities_prefix:
  "format_activities w idx result xs = Inr r \<Longrightarrow> prefix result r"
proof (induction xs arbitrary: idx result)
  case Nil
  then show ?case by simp
next
  case (Cons a xs)
  then obtain block where "format_activity w idx a = Inr block"
    and "format_activities w (Suc idx) (result @ block) xs = Inr r"
    by (auto split: sum.splits)
  with Cons.IH have "prefix (result @ block) r" by blast
  then show ?case by (rule append_prefixD)
qed

lemma format_activity_ok:
  "well_formed_activity a \<Longrightarrow> \<exists>block. format_activity w idx a = Inr block"
  by (cases a rule: well_formed_activity.cases)
     (auto simp: format_activity_def split: option.splits pyval.splits)

lemma format_activity_bad:
  "\<not> well_formed_activity a \<Longrightarrow> \<exists>err. format_activity w idx a = Inl err"
  by (cases a rule: well_formed_activity.cases)
     (auto simp: format_activity_def split: option.splits pyval.splits)

lemma format_activities_ok:
  "list_all well_formed_activity xs \<Longrightarrow> \<exists>r. format_activities w idx result xs = Inr r"
proof (induction xs arbitrary: idx result)
  case Nil
  then show ?case by simp
next
  case (Cons a xs)
  then obtain block where "format_activity w idx a = Inr block"
    using format_activity_ok [of a w idx] by auto
  with Cons show ?case by simp
qed

lemma format_activities_bad:
  "\<not> list_all well_formed_activity xs \<Longrightarrow> \<exists>err. format_activities w idx result xs = Inl err"
proof (induction xs arbitrary: idx result)
  case Nil
  then show ?case by simp
next
  case (Cons a xs)
  show ?case
  proof (cases "well_formed_activity a")
    case True
    then obtain block where "format_activity w idx a = Inr block"
      using format_activity_ok [of a w idx] by auto
    with Cons True show ?thesis by simp
  next
    case False
    then obtain err where "format_activity w idx a = Inl err"
      using format_activity_bad [of a w idx] by auto
    then show ?thesis by simp
  qed
qed

lemma body_shapes:
  "list_activities_body w limit = Inr r \<Longrightarrow>
   r = ''No activities found.'' \<or> (\<exists>n. prefix (header n) r)"
  unfolding list_activities_body_def header_def
  by (auto split: sum.splits if_splits dest: format_activities_prefix)

lemma list_activities_result:
  "fst (list_activities w c limit) =
     (case list_activities_body w limit of
        Inr r \<Rightarrow> r
      | Inl err \<Rightarrow> ''Error retrieving activities: '' @ message err)"
  by (simp add: list_activities_def Let_def split: sum.splits)

text \<open>
  C10, as the code has it. \<open>list_activities\<close> always returns a string, of one of
  three shapes. When what \<open>get_activities\<close> returns is empty the string is exactly
  \<open>No activities found.\<close>; when \<open>get_activities\<close> raises, it is
  \<open>Error retrieving activities: \<close> followed by the exception's text; when a
  non-empty list is returned whose items are all dicts with \<open>activityType\<close> absent or a
  dict, it begins with the header that states the length of the list; and when some
  item of the list is not of that form, formatting raises and the string begins with
  \<open>Error retrieving activities: \<close>.
\<close>

theorem list_activities_total:
  "(\<forall>v. get_activities w 0 limit = Inr v \<longrightarrow> \<not> truthy v \<longrightarrow>
        fst (list_activities w c limit) = ''No activities found.'')
   \<and> (\<forall>err. get_activities w 0 limit = Inl err \<longrightarrow>
        fst (list_activities w c limit) = ''Error retrieving activities: '' @ message err)
   \<and> (\<forall>xs. get_activities w 0 limit = Inr (PList xs) \<longrightarrow> xs \<noteq> [] \<longrightarrow>
        list_all well_formed_activity xs \<longrightarrow>
        prefix (header (length xs)) (fst (list_activities w c limit)))
   \<and> (\<forall>xs. get_activities w 0 limit = Inr (PList xs) \<longrightarrow>
        \<not> list_all well_formed_activity xs \<longrightarrow>
        prefix ''Error retrieving activities: '' (fst (list_activities w c limit)))
   \<and> (fst (list_activities w c limit) = ''No activities found.''
        \<or> prefix ''Error retrieving activities: '' (fst (list_activities w c limit))
        \<or> (\<exists>n. prefix (header n) (fst (list_activities w c limit))))"
proof (intro conjI allI impI)
  fix v
  assume "get_activities w 0 limit = Inr v" and "\<not> truthy v"
  then show "fst (list_activities w c limit) = ''No activities found.''"
    by (simp add: list_activities_result list_activities_body_def)
next
  fix err
  assume "get_activities w 0 limit = Inl err"
  then show "fst (list_activities w c limit) = ''Error retrieving activities: '' @ message err"
    by (simp add: list_activities_result list_activities_body_def)
next
  fix xs
  assume got: "get_activities w 0 limit = Inr (PList xs)" and ne: "xs \<noteq> []"
    and wf: "list_all well_formed_activity xs"
  obtain r where r: "format_activities w 1 (header (length xs)) xs = Inr r"
    using format_activities_ok [OF wf] by blast
  with got ne have "fst (list_activities w c limit) = r"
    by (simp add: list_activities_result list_activities_body_def header_def)
  with format_activities_prefix [OF r]
  show "prefix (header (length xs)) (fst (list_activities w c limit))"
    by simp
next
  fix xs
  assume got: "get_activities w 0 limit = Inr (PList xs)"
    and bad: "\<not> list_all well_formed_activity xs"
  from bad have ne: "xs \<noteq> []" by auto
  obtain err where "format_activities w 1 (header (length xs)) xs = Inl err"
    using format_activities_bad [OF bad] by blast
  with got ne
  have "fst (list_activities w c limit) = ''Error retrieving activities: '' @ message err"
    by (simp add: list_activities_result list_activities_body_def header_def)
  then show "prefix ''Error retrieving activities: '' (fst (list_activities w c limit))"
    by simp
next
  show "fst (list_activities w c limit) = ''No activities found.''
        \<or> prefix ''Error retrieving activities: '' (fst (list_activities w c limit))
        \<or> (\<exists>n. prefix (header n) (fst (list_activities w c limit)))"
  proof (cases "list_activities_body w limit")
    case (Inl err)
    then show ?thesis by (simp add: list_activities_result)
  next
    case (Inr r)
    with body_shapes [OF Inr] show ?thesis by (auto simp: list_activities_result)
  qed
qed

theorem list_activities_total_witness:
  "get_activities fresh_world 0 5 = Inr (PList [])
   \<and> \<not> truthy (PList [])
   \<and> fst (list_activities fresh_world interactive_config 5) = ''No activities found.''
   \<and> fst (list_activities (activities_world (Inl (Exn HTTPError ''503 Server Error'')))
            automated_config 5)
       = ''Error retrieving activities: '' @ message (Exn HTTPError ''503 Server Error'')
   \<and> list_all well_formed_activity [one_run]
   \<and> prefix (header (length [one_run]))
        (fst (list_activities (activities_world (Inr (PList [one_run]))) interactive_config 5))
   \<and> \<not> list_all well_formed_activity [untyped_activity]
   \<and> prefix ''Error retrieving activities: ''
        (fst (list_activities (activities_world (Inr (PList [untyped_activity])))
                interactive_config 5))"
proof -
  have g0: "get_activities fresh_world 0 5 = Inr (PList [])"
    by (simp add: scenario_defs)
  have f0: "\<not> truthy (PList [])"
    by simp
  have g1: "get_activities (activities_world (Inl (Exn HTTPError ''503 Server Error''))) 0 5
              = Inl (Exn HTTPError ''503 Server Error'')"
    by (simp add: scenario_defs)
  have g2: "get_activities (activities_world (Inr (PList [one_run]))) 0 5
              = Inr (PList [one_run])"
    by (simp add: scenario_defs)
  have w2: "list_all well_formed_activity [one_run]"
    by (simp add: one_run_def)
  have ne2: "[one_run] \<noteq> []"
    by simp
  have g3: "get_activities (activities_world (Inr (PList [untyped_activity]))) 0 5
              = Inr (PList [untyped_activity])"
    by (simp add: scenario_defs)
  have w3: "\<not> list_all well_formed_activity [untyped_activity]"
    by (simp add: untyped_activity_def)
  from list_activities_total [where w = fresh_world and c = interactive_config and limit = 5]
    g0 f0
  have r0: "fst (list_activities fresh_world interactive_config 5) = ''No activities found.''"
    by blast
  from list_activities_total
         [where w = "activities_world (Inl (Exn HTTPError ''503 Server Error''))"
            and c = automated_config and limit = 5] g1
  have r1: "fst (list_activities (activities_world (Inl (Exn HTTPError ''503 Server Error'')))
            automated_config 5)
       = ''Error retrieving activities: '' @ message (Exn HTTPError ''503 Server Error'')"
    by blast
  from list_activities_total
         [where w = "activities_world (Inr (PList [one_run]))"
            and c = interactive_config and limit = 5] g2 ne2 w2
  have r2: "prefix (header (length [one_run]))
        (fst (list_activities (activities_world (Inr (PList [one_run]))) interactive_config 5))"
    by blast
  from list_activities_total
         [where w = "activities_world (Inr (PList [untyped_activity]))"
            and c = interactive_config and limit = 5] g3 w3
  have r3: "prefix ''Error retrieving activities: ''
        (fst (list_activities (activities_world (Inr (PList [untyped_activity])))
                interactive_config 5))"
    by blast
  from g0 f0 r0 r1 w2 r2 w3 r3 show ?thesis by blast
qed

text \<open>
  C10, as the specification states it, fails: when the one activity returned has
  \<open>"activityType": null\<close>, line 180 raises \<open>AttributeError\<close>, the handler takes it,
  and the result is the error message, with no header for the one activity.
\<close>

theorem untyped_activity_listing:
  "get_activities (activities_world (Inr (PList [untyped_activity]))) 0 5
     = Inr (PList [untyped_activity])
   \<and> fst (list_activities (activities_world (Inr (PList [untyped_activity])))
            interactive_config 5)
       = ''Error retrieving activities: '' @ quote @ ''NoneType'' @ quote
           @ '' object has no attribute '' @ quote @ ''get'' @ quote
   \<and> \<not> prefix (header 1)
         (fst (list_activities (activities_world (Inr (PList [untyped_activity])))
                 interactive_config 5))"
  by (simp add: scenario_defs untyped_activity_def list_activities_result
        list_activities_body_def format_activity_def header_def quote_def nl_def
        str_nat.simps [of 1] digit_char_def)

subsection \<open>The operating mode\<close>

text \<open>
  C9. The operating mode is the truth value of the string in \<open>MCP_MODE\<close>: automated
  for every non-empty value, \<open>0\<close> and \<open>false\<close> included, and interactive exactly when
  the variable is unset or empty.
\<close>

theorem mcp_mode_truthiness:
  "mcp_mode (load_config env) = (\<exists>v. env ''MCP_MODE'' = Some v \<and> v \<noteq> [])
   \<and> (\<not> mcp_mode (load_config env)) = (env ''MCP_MODE'' = None \<or> env ''MCP_MODE'' = Some [])
   \<and> mcp_mode (load_config (env(''MCP_MODE'' \<mapsto> ''0'')))
   \<and> mcp_mode (load_config (env(''MCP_MODE'' \<mapsto> ''false'')))"
  by (cases "env ''MCP_MODE''") (simp_all add: load_config_def)

end
